theory Spec2Isabelle
  imports Complex_Main
begin

section \<open>Python values and strings\<close>

text \<open>
  A Python \<^verbatim>\<open>str\<close> is a sequence of Unicode code points. The text of a message, whose
  characters the code inspects, is modelled so: a list of code points. Strings that the
  code only builds, compares or passes on (urls, names, keys) are byte strings.
\<close>

type_synonym pystr = "nat list"

text \<open>
  Two kinds of Python value meet in the expressions modelled here: strings and booleans.
  \<open>truthy\<close> is Python's truth test and \<open>py_and\<close> the operator \<^verbatim>\<open>and\<close>, which returns
  its left operand when that is falsy and its right operand otherwise.
\<close>

datatype pyval = PStr pystr | PBool bool

fun truthy :: "pyval \<Rightarrow> bool" where
  "truthy (PStr s) = (s \<noteq> [])"
| "truthy (PBool b) = b"

definition py_and :: "pyval \<Rightarrow> pyval \<Rightarrow> pyval" where
  "py_and a b = (if truthy a then b else a)"

text \<open>The exceptions that the modelled code raises or receives.\<close>

datatype aws_exn =
    ConditionalCheckFailedException
  | ValidationException
  | ResourceNotFoundException
  | NoSuchBucket
  | ParamValidationError

datatype error =
    ValueError
  | KeyError int
  | AttributeError
  | ZeroDivisionError
  | RuntimeError aws_exn
  | PlatformError
  | LockError

text \<open>\<^verbatim>\<open>str(n)\<close> for an integer: decimal digits, a minus sign for a negative number.\<close>

definition digit_char :: "nat \<Rightarrow> char" where
  "digit_char d = ''0123456789'' ! d"

function str_nat :: "nat \<Rightarrow> string" where
  "str_nat n = (if n < 10 then [digit_char n] else str_nat (n div 10) @ [digit_char (n mod 10)])"
  by pat_completeness auto
termination
  by (relation "measure (\<lambda>n. n)") auto

declare str_nat.simps [simp del]

definition str_int :: "int \<Rightarrow> string" where
  "str_int i = (if i < 0 then CHR ''-'' # str_nat (nat (- i)) else str_nat (nat i))"

text \<open>
  \<^verbatim>\<open>s.strip()\<close>: leading and trailing whitespace removed. The whitespace characters are
  those of \<^verbatim>\<open>str.isspace\<close>: the ASCII controls 9 to 13 and 28 to 31, the space, U+0085,
  U+00A0, U+1680, U+2000 to U+200A, U+2028, U+2029, U+202F, U+205F and U+3000.
\<close>

definition is_space :: "nat \<Rightarrow> bool" where
  "is_space c =
     (c \<in> {9, 10, 11, 12, 13, 28, 29, 30, 31, 32, 133, 160, 5760, 8232, 8233, 8239, 8287, 12288}
      \<or> (8192 \<le> c \<and> c \<le> 8202))"

definition strip :: "pystr \<Rightarrow> pystr" where
  "strip s = rev (dropWhile is_space (rev (dropWhile is_space s)))"

section \<open>Helpers of common.py\<close>

text \<open>
  \<^verbatim>\<open>common.py\<close> is not among the sources. Its three functions used by the backend are
  parameters of the model: \<^verbatim>\<open>get_share_id\<close> (the canonical chat id of a raw id),
  \<^verbatim>\<open>escape_content\<close> and \<^verbatim>\<open>format_entity_name\<close>.
\<close>

record tg_user =
  u_id :: int
  u_username :: "string option"
  u_first_name :: "string option"
  u_last_name :: "string option"
  u_bot :: bool

record helpers =
  get_share_id :: "int \<Rightarrow> int"
  escape_content :: "pystr \<Rightarrow> pystr"
  format_entity_name :: "tg_user \<Rightarrow> string"

section \<open>The correlation store without redis (frontend\_bot.py, FakeRedis)\<close>

text \<open>
  \<^verbatim>\<open>
  class FakeRedis:
      def __init__(self):      self._data = {}
      def get(self, key):      return self._data.get(key)
      def set(self, key, val): self._data[key] = val
  \<close>
  The dictionary is a map; \<^verbatim>\<open>dict.get\<close> of a missing key is \<open>None\<close>.
\<close>

type_synonym ('k, 'v) FakeRedis = "'k \<rightharpoonup> 'v"

definition FakeRedis_init :: "('k, 'v) FakeRedis" where
  "FakeRedis_init = Map.empty"

definition FakeRedis_get :: "('k, 'v) FakeRedis \<Rightarrow> 'k \<Rightarrow> 'v option" where
  "FakeRedis_get r key = r key"

definition FakeRedis_set :: "('k, 'v) FakeRedis \<Rightarrow> 'k \<Rightarrow> 'v \<Rightarrow> ('k, 'v) FakeRedis" where
  "FakeRedis_set r key val = r(key \<mapsto> val)"

text \<open>A run of \<^verbatim>\<open>set\<close> calls, oldest first.\<close>

fun FakeRedis_sets :: "('k, 'v) FakeRedis \<Rightarrow> ('k \<times> 'v) list \<Rightarrow> ('k, 'v) FakeRedis" where
  "FakeRedis_sets r [] = r"
| "FakeRedis_sets r ((k, v) # kvs) = FakeRedis_sets (FakeRedis_set r k v) kvs"

section \<open>Search result buttons (frontend\_bot.py, \_render\_respond\_buttons)\<close>

text \<open>
  \<^verbatim>\<open>SearchResult\<close> comes from indexer.py; the renderer reads two of its fields.
  \<^verbatim>\<open>Button.inline(text, data)\<close> is recorded with the two arguments it is given.
\<close>

record search_result =
  total_results :: int
  is_last_page :: bool

record button =
  b_text :: string
  b_data :: string

text \<open>The two labels, as UTF-8 bytes: "previous page" with a left arrow, a right arrow with "next page".\<close>

definition former_label :: string where
  "former_label =
     [CHR 0xE4, CHR 0xB8, CHR 0x8A, CHR 0xE4, CHR 0xB8, CHR 0x80, CHR 0xE9, CHR 0xA1, CHR 0xB5,
      CHR 0xE2, CHR 0xAC, CHR 0x85, CHR 0xEF, CHR 0xB8, CHR 0x8F]"

definition next_label :: string where
  "next_label =
     [CHR 0xE2, CHR 0x9E, CHR 0xA1, CHR 0xEF, CHR 0xB8, CHR 0x8F, CHR 0xE4, CHR 0xB8, CHR 0x8B,
      CHR 0xE4, CHR 0xB8, CHR 0x80, CHR 0xE9, CHR 0xA1, CHR 0xB5]"

text \<open>
  \<^verbatim>\<open>
  former_page, former_text = ('', ' ') if cur_page_num == 1 \
      else (f'search_page={cur_page_num - 1}', <former label>)
  next_page, next_text = ('', ' ') if result.is_last_page \
      else (f'search_page={cur_page_num + 1}', <next label>)
  total_pages = - (- result.total_results // self._cfg.page_len)
  return [[Button.inline(former_text, former_page),
           Button.inline(f'{cur_page_num} / {total_pages}', ''),
           Button.inline(next_text, next_page)]]
  \<close>
  Python's \<^verbatim>\<open>//\<close> on integers is floor division, as \<open>div\<close> on \<open>int\<close> is, and raises
  ZeroDivisionError when the divisor is zero.
\<close>

definition py_floordiv :: "int \<Rightarrow> int \<Rightarrow> error + int" where
  "py_floordiv a b = (if b = 0 then Inl ZeroDivisionError else Inr (a div b))"

definition render_respond_buttons :: "int \<Rightarrow> search_result \<Rightarrow> int \<Rightarrow> error + button list list" where
  "render_respond_buttons page_len result cur_page_num =
     (let (former_page, former_text) =
            (if cur_page_num = 1 then ('''', '' '')
             else (''search_page='' @ str_int (cur_page_num - 1), former_label));
          (next_page, next_text) =
            (if is_last_page result then ('''', '' '')
             else (''search_page='' @ str_int (cur_page_num + 1), next_label))
      in case py_floordiv (- total_results result) page_len of
           Inl e \<Rightarrow> Inl e
         | Inr q \<Rightarrow>
             (let total_pages = - q
              in Inr [[\<lparr>b_text = former_text, b_data = former_page\<rparr>,
                       \<lparr>b_text = str_int cur_page_num @ '' / '' @ str_int total_pages, b_data = ''''\<rparr>,
                       \<lparr>b_text = next_text, b_data = next_page\<rparr>]]))"

text \<open>A button that shows a blank label and carries no page request.\<close>

definition blank_button :: button where
  "blank_button = \<lparr>b_text = '' '', b_data = ''''\<rparr>"

section \<open>The archive: aws.py and model.py\<close>

subsection \<open>The structured store\<close>

text \<open>
  DynamoDB is outside the repository. A table is modelled by what the service documents:
  an item is a dictionary of attributes; a table declares key attributes with their types
  and holds at most one item per primary key; \<^verbatim>\<open>put_item\<close> with a condition
  evaluates the condition on the stored item that has the new item's primary key (on an
  item without attributes when there is none), and writes, replacing that item, only if
  the condition holds.
\<close>

datatype dval = N int | S string | BOOL bool | NULL | M "(string \<times> dval) list"

type_synonym item = "(string \<times> dval) list"

fun dtype :: "dval \<Rightarrow> string" where
  "dtype (N _) = ''N''"
| "dtype (S _) = ''S''"
| "dtype (BOOL _) = ''BOOL''"
| "dtype NULL = ''NULL''"
| "dtype (M _) = ''M''"

datatype key_type = HASH | RANGE

definition DEFAULT_TABLE_NAME :: string where
  "DEFAULT_TABLE_NAME = ''tg_message_db''"

definition DEFAULT_KEY_SCHEMA :: "(string \<times> key_type) list" where
  "DEFAULT_KEY_SCHEMA = [(''chatId'', HASH), (''timestamp'', RANGE)]"

definition DEFAULT_ATTRIBUTE_DEFINITIONS :: "(string \<times> string) list" where
  "DEFAULT_ATTRIBUTE_DEFINITIONS = [(''chatId'', ''N''), (''timestamp'', ''N'')]"

record dynamo_table =
  key_schema :: "(string \<times> key_type) list"
  attribute_definitions :: "(string \<times> string) list"
  rows :: "item list"

text \<open>
  The value of one key attribute of an item: present, and of the declared type.
  The primary key of an item: the values of all key attributes, in schema order.
\<close>

definition key_attr :: "dynamo_table \<Rightarrow> item \<Rightarrow> string \<Rightarrow> dval option" where
  "key_attr t it a =
     (case map_of it a of
        None \<Rightarrow> None
      | Some v \<Rightarrow> if map_of (attribute_definitions t) a = Some (dtype v) then Some v else None)"

definition primary_key :: "dynamo_table \<Rightarrow> item \<Rightarrow> dval list option" where
  "primary_key t it = those (map (key_attr t it) (map fst (key_schema t)))"

datatype cond = attribute_not_exists string | AND cond cond

fun subst_names :: "(string \<times> string) list \<Rightarrow> cond \<Rightarrow> cond" where
  "subst_names names (attribute_not_exists a) =
     attribute_not_exists (case map_of names a of None \<Rightarrow> a | Some b \<Rightarrow> b)"
| "subst_names names (AND c d) = AND (subst_names names c) (subst_names names d)"

fun eval_cond :: "cond \<Rightarrow> item \<Rightarrow> bool" where
  "eval_cond (attribute_not_exists a) it = (map_of it a = None)"
| "eval_cond (AND c d) it = (eval_cond c it \<and> eval_cond d it)"

definition put_item :: "dynamo_table \<Rightarrow> item \<Rightarrow> cond \<Rightarrow> (string \<times> string) list \<Rightarrow> aws_exn + dynamo_table" where
  "put_item t it condition names =
     (case primary_key t it of
        None \<Rightarrow> Inl ValidationException
      | Some k \<Rightarrow>
          (let stored = (case find (\<lambda>r. primary_key t r = Some k) (rows t) of None \<Rightarrow> [] | Some r \<Rightarrow> r)
           in if eval_cond (subst_names names condition) stored
              then Inr (t\<lparr>rows := filter (\<lambda>r. primary_key t r \<noteq> Some k) (rows t) @ [it]\<rparr>)
              else Inl ConditionalCheckFailedException))"

subsection \<open>The object store and the client\<close>

text \<open>
  The client's configuration (bucket and table name) together with the two services it
  talks to: the buckets with their objects, and the tables by name. An upload fails when
  no bucket name is configured or the bucket does not exist.
\<close>

record aws_client =
  s3_bucket_name :: "string option"
  dynamo_table_name :: string
  buckets :: "string set"
  objects :: "(string \<times> string) \<rightharpoonup> string"
  tables :: "string \<rightharpoonup> dynamo_table"

text \<open>Python's rendering of an optional string inside an f-string.\<close>

definition fstr_opt :: "string option \<Rightarrow> string" where
  "fstr_opt s = (case s of None \<Rightarrow> ''None'' | Some t \<Rightarrow> t)"

text \<open>
  \<^verbatim>\<open>
  async def upload_to_s3(self, file_obj=None, file_path=None, s3_prefix=..., file_name=...):
      try:
          if file_obj:    await s3.upload_fileobj(file_obj, bucket, f"{s3_prefix}/{file_name}")
          elif file_path: await s3.upload_file(file_path, bucket, f"{s3_prefix}/{file_name}")
          return f"{bucket}/{s3_prefix}/{file_name}"
      except Exception as e:
          raise RuntimeError(f"Failed to upload file to S3: {e}")
  \<close>
  The backend always passes a \<^verbatim>\<open>BytesIO\<close> object, which is truthy whatever it holds; the
  branch that reads a local path is left out.
\<close>

definition upload_fileobj :: "aws_client \<Rightarrow> string \<Rightarrow> string \<Rightarrow> aws_exn + aws_client" where
  "upload_fileobj A bytes k =
     (case s3_bucket_name A of
        None \<Rightarrow> Inl ParamValidationError
      | Some b \<Rightarrow> if b \<in> buckets A then Inr (A\<lparr>objects := (objects A)((b, k) \<mapsto> bytes)\<rparr>)
                  else Inl NoSuchBucket)"

definition upload_to_s3 :: "aws_client \<Rightarrow> string option \<Rightarrow> string \<Rightarrow> string option \<Rightarrow> aws_client \<times> (error + string)" where
  "upload_to_s3 A file_obj s3_prefix file_name =
     (let k = s3_prefix @ ''/'' @ fstr_opt file_name;
          path = fstr_opt (s3_bucket_name A) @ ''/'' @ k
      in case file_obj of
           None \<Rightarrow> (A, Inr path)
         | Some bytes \<Rightarrow>
             (case upload_fileobj A bytes k of
                Inl e \<Rightarrow> (A, Inl (RuntimeError e))
              | Inr A' \<Rightarrow> (A', Inr path)))"

text \<open>
  \<^verbatim>\<open>
  async def put_item_to_dynamo(self, table_name=None, item=None):
      if item is None: raise ValueError("Item cannot be None")
      if table_name is None: table_name = self._cfg.dynamo_table_name
      table = await dynamodb.Table(table_name)
      try:
          await table.put_item(Item=item,
              ConditionExpression="attribute_not_exists(chat_id) AND  attribute_not_exists(#ts)",
              ExpressionAttributeNames={"#ts": "timestamp"})
      except Exception as e:
          raise RuntimeError(f"Failed to put item to DynamoDB: {e}")
  \<close>
\<close>

definition put_item_to_dynamo :: "aws_client \<Rightarrow> string option \<Rightarrow> item option \<Rightarrow> aws_client \<times> error option" where
  "put_item_to_dynamo A table_name item =
     (case item of
        None \<Rightarrow> (A, Some ValueError)
      | Some it \<Rightarrow>
          (let tn = (case table_name of None \<Rightarrow> dynamo_table_name A | Some n \<Rightarrow> n)
           in case tables A tn of
                None \<Rightarrow> (A, Some (RuntimeError ResourceNotFoundException))
              | Some t \<Rightarrow>
                  (case put_item t it
                          (AND (attribute_not_exists ''chat_id'') (attribute_not_exists ''#ts''))
                          [(''#ts'', ''timestamp'')] of
                     Inl e \<Rightarrow> (A, Some (RuntimeError e))
                   | Inr t' \<Rightarrow> (A\<lparr>tables := (tables A)(tn \<mapsto> t')\<rparr>, None))))"

subsection \<open>The archived message (model.py)\<close>

datatype MediaType = PHOTO | VIDEO | AUDIO | DOCUMENT | UNKNOWN

fun MediaType_value :: "MediaType \<Rightarrow> string" where
  "MediaType_value PHOTO = ''photo''"
| "MediaType_value VIDEO = ''video''"
| "MediaType_value AUDIO = ''audio''"
| "MediaType_value DOCUMENT = ''document''"
| "MediaType_value UNKNOWN = ''unknown''"

record TelegramUser =
  user_id :: int
  username :: "string option"
  first_name :: "string option"
  last_name :: "string option"
  is_bot :: bool

record TelegramMedia =
  media_type :: MediaType
  media_key :: string

record TelegramMessage =
  tm_chat_id :: int
  tm_message_id :: int
  tm_timestamp :: int
  tm_user :: TelegramUser
  tm_text :: "string option"
  tm_media :: "TelegramMedia option"
  tm_reply_to :: "int option"
  tm_is_forward :: "bool option"
  tm_fwd_from :: "int option"

text \<open>\<^verbatim>\<open>.dict(by_alias=True)\<close>: the fields in declaration order under their aliases.\<close>

definition opt_dval :: "('a \<Rightarrow> dval) \<Rightarrow> 'a option \<Rightarrow> dval" where
  "opt_dval f x = (case x of None \<Rightarrow> NULL | Some v \<Rightarrow> f v)"

definition TelegramUser_dict :: "TelegramUser \<Rightarrow> item" where
  "TelegramUser_dict u =
     [(''userId'', N (user_id u)), (''username'', opt_dval S (username u)),
      (''firstName'', opt_dval S (first_name u)), (''lastName'', opt_dval S (last_name u)),
      (''isBot'', BOOL (is_bot u))]"

definition TelegramMedia_dict :: "TelegramMedia \<Rightarrow> item" where
  "TelegramMedia_dict m =
     [(''mediaType'', S (MediaType_value (media_type m))), (''mediaKey'', S (media_key m))]"

definition TelegramMessage_dict :: "TelegramMessage \<Rightarrow> item" where
  "TelegramMessage_dict m =
     [(''chatId'', N (tm_chat_id m)), (''messageId'', N (tm_message_id m)),
      (''timestamp'', N (tm_timestamp m)), (''user'', M (TelegramUser_dict (tm_user m))),
      (''text'', opt_dval S (tm_text m)),
      (''media'', opt_dval (\<lambda>x. M (TelegramMedia_dict x)) (tm_media m)),
      (''replyTo'', opt_dval N (tm_reply_to m)), (''isForward'', opt_dval BOOL (tm_is_forward m)),
      (''fwdFrom'', opt_dval N (tm_fwd_from m))]"

section \<open>The backend: backend\_bot.py\<close>

subsection \<open>Data\<close>

text \<open>
  \<^verbatim>\<open>IndexMsg\<close> comes from indexer.py; the backend builds it from five keyword arguments,
  kept here as given. \<open>content\<close> is a Python value because the backend does not always
  pass a string. \<open>post_time\<close> is the message's time stamp in seconds.
\<close>

record index_msg =
  content :: pyval
  url :: string
  chat_id :: int
  post_time :: int
  sender :: string

text \<open>
  The index engine is outside the backend; the model records the calls the backend issues
  to it, oldest first: \<^verbatim>\<open>add_document(msg)\<close>, a writer that takes
  \<^verbatim>\<open>add_document(msg, writer)\<close> for each message of a list and is then committed,
  \<^verbatim>\<open>delete(url)\<close>, \<^verbatim>\<open>delete_by_term(field, value)\<close> inside a writer, and
  \<^verbatim>\<open>clear()\<close>.
\<close>

datatype ix_call =
    IxAdd index_msg
  | IxBatch "index_msg list"
  | IxDelete string
  | IxDeleteByTerm string string
  | IxClear

text \<open>What the backend reads of a platform message or new-message event.\<close>

datatype entity = User tg_user | Channel int "string option"

datatype peer = PeerUser int | PeerChat int | PeerChannel int

datatype doc_attr = DocumentAttributeAudio | DocumentAttributeVideo | DocumentAttributeOther

datatype media = MessageMediaPhoto | MessageMediaDocument "doc_attr list" | MessageMediaOther

record tg_file =
  f_name :: "string option"
  f_ext :: "string option"

record tg_message =
  m_id :: int
  m_chat_id :: int
  m_raw_text :: "pystr option"
  m_text :: "string option"
  m_date :: int
  m_sender :: "entity option"
  m_get_sender :: "error + entity option"
  m_reply_to :: "int option"
  m_fwd_from :: "peer option option"
  m_media :: "media option"
  m_file :: "tg_file option"
  m_download_media :: "error + string"


text \<open>
  The platform session and the archive's existence check are not among the sources
  (\<^verbatim>\<open>AWSClient\<close> in aws.py defines no \<^verbatim>\<open>check_message_exist\<close>). The model takes their
  outcomes as parameters: the messages \<^verbatim>\<open>iter_messages\<close> yields and the exception,
  if any, that ends the iteration after them; the answer of the existence check, or the
  exception it raises. The index engine is not among the sources either: \<open>add_document\<close>
  is what the live handler's call \<^verbatim>\<open>self._indexer.add_document(msg)\<close> does, return or
  raise (the index may be locked by another writer).
\<close>

record env =
  iter_messages :: "int \<Rightarrow> int \<Rightarrow> int \<Rightarrow> tg_message list \<times> error option"
  check_message_exist :: "int \<Rightarrow> int \<Rightarrow> error + bool"
  add_document :: "index_msg \<Rightarrow> error option"

text \<open>Warnings and errors written to the log (lines of level info are left out).\<close>

datatype log_entry =
    Warning_cloud_not_configured
  | Error_upload_failed int error

record backend =
  monitor_all :: bool
  cloudstorage :: bool
  monitored_chats :: "int set"
  excluded_chats :: "int set"
  newest_msg :: "int \<rightharpoonup> index_msg"
  ix_calls :: "ix_call list"
  cloud_client :: "aws_client option"
  logged :: "log_entry list"

subsection \<open>Monitoring and text extraction\<close>

text \<open>
  \<^verbatim>\<open>
  def _should_monitor(self, chat_id):
      share_id = get_share_id(chat_id)
      if self._cfg.monitor_all: return share_id not in self.excluded_chats
      else:                     return share_id in self.monitored_chats
  \<close>
\<close>

definition should_monitor :: "helpers \<Rightarrow> backend \<Rightarrow> int \<Rightarrow> bool" where
  "should_monitor H s raw_chat_id =
     (let share_id = get_share_id H raw_chat_id
      in if monitor_all s then share_id \<notin> excluded_chats s
         else share_id \<in> monitored_chats s)"

text \<open>
  \<^verbatim>\<open>
  def _extract_text(event):
      if hasattr(event, 'raw_text') and event.raw_text and len(event.raw_text.strip()) >= 0:
          return escape_content(event.raw_text.strip())
      else:
          return ''
  \<close>
\<close>

definition extract_text :: "helpers \<Rightarrow> tg_message \<Rightarrow> pystr" where
  "extract_text H event =
     (case m_raw_text event of
        None \<Rightarrow> []
      | Some t \<Rightarrow> if t \<noteq> [] \<and> 0 \<le> length (strip t) then escape_content H (strip t) else [])"

text \<open>
  \<^verbatim>\<open>
  async def _get_sender_name(message):
      sender = await message.get_sender()
      if isinstance(sender, User): return format_entity_name(sender)
      else:                        return ''
  \<close>
\<close>

definition get_sender_name :: "helpers \<Rightarrow> tg_message \<Rightarrow> error + string" where
  "get_sender_name H message =
     (case m_get_sender message of
        Inl e \<Rightarrow> Inl e
      | Inr (Some (User u)) \<Rightarrow> Inr (format_entity_name H u)
      | Inr _ \<Rightarrow> Inr '''')"

text \<open>The link \<^verbatim>\<open>f'https://t.me/c/{share_id}/{msg_id}'\<close>, written out in three handlers.\<close>

definition msg_url :: "int \<Rightarrow> int \<Rightarrow> string" where
  "msg_url share_id msg_id = ''https://t.me/c/'' @ str_int share_id @ ''/'' @ str_int msg_id"

subsection \<open>Archiving one message\<close>

text \<open>
  \<^verbatim>\<open>cloud_upload_message\<close>, step by step. The sender's fields:
  \<^verbatim>\<open>
  sender = message.sender
  user_id = sender.id if sender else 0
  username = sender.username if sender else ''
  first_name = sender.first_name if sender else ''
  last_name = sender.last_name if sender else ''
  is_bot = sender.bot if sender else False
  \<close>
  A channel has an id and a username but no first name: reading it raises AttributeError.
\<close>

definition archived_user :: "entity option \<Rightarrow> error + TelegramUser" where
  "archived_user sndr =
     (case sndr of
        None \<Rightarrow> Inr \<lparr>user_id = 0, username = Some '''', first_name = Some '''',
                      last_name = Some '''', is_bot = False\<rparr>
      | Some (User u) \<Rightarrow> Inr \<lparr>user_id = u_id u, username = u_username u,
                                first_name = u_first_name u, last_name = u_last_name u,
                                is_bot = u_bot u\<rparr>
      | Some (Channel i n) \<Rightarrow> Inl AttributeError)"

text \<open>
  \<^verbatim>\<open>
  if message.fwd_from:
      if isinstance(message.fwd_from.from_id, PeerChannel): fwd_from = message.fwd_from.from_id.channel_id
      else:                                                 fwd_from = message.fwd_from.from_id.user_id
      telegram_message.fwd_from = fwd_from
      telegram_message.is_forward = True
  else:
      telegram_message.is_forward = False
  \<close>
  The result is the pair of \<^verbatim>\<open>is_forward\<close> and \<^verbatim>\<open>fwd_from\<close>.
\<close>

fun forward_origin :: "peer option option \<Rightarrow> error + (bool \<times> int option)" where
  "forward_origin None = Inr (False, None)"
| "forward_origin (Some (Some (PeerChannel c))) = Inr (True, Some c)"
| "forward_origin (Some (Some (PeerUser u))) = Inr (True, Some u)"
| "forward_origin (Some (Some (PeerChat c))) = Inl AttributeError"
| "forward_origin (Some None) = Inl AttributeError"

text \<open>
  \<^verbatim>\<open>
  file_name = ""
  media_type = 'unknown'
  if isinstance(message.media, MessageMediaPhoto): media_type = 'photo'
  elif isinstance(message.media, MessageMediaDocument):
      doc = message.media.document
      if any(isinstance(attr, DocumentAttributeAudio) for attr in doc.attributes):   media_type = 'audio'
      elif any(isinstance(attr, DocumentAttributeVideo) for attr in doc.attributes): media_type = 'video'
      else:
          media_type = 'document'
          file_name = message.file.name
  \<close>
\<close>

fun media_kind :: "media \<Rightarrow> tg_file option \<Rightarrow> error + (MediaType \<times> string option)" where
  "media_kind MessageMediaPhoto f = Inr (PHOTO, Some '''')"
| "media_kind (MessageMediaDocument attrs) f =
     (if DocumentAttributeAudio \<in> set attrs then Inr (AUDIO, Some '''')
      else if DocumentAttributeVideo \<in> set attrs then Inr (VIDEO, Some '''')
      else (case f of None \<Rightarrow> Inl AttributeError | Some fl \<Rightarrow> Inr (DOCUMENT, f_name fl)))"
| "media_kind MessageMediaOther f = Inr (UNKNOWN, Some '''')"

text \<open>
  \<^verbatim>\<open>
  if message.media:
      ...
      io_object = BytesIO()
      await message.download_media(file=io_object)
      extension = message.file.ext if message.file else ''
      if file_name == "":
          file_name = f'{chat_id}_{message_id}_{int(timestamp)}{extension}'
      media_key = await self._cloud_client.upload_to_s3(
          file_obj=io_object, s3_prefix=f'{chat_id}', file_name=file_name)
      telegram_message.media = TelegramMedia(media_key=media_key, media_type=media_type)
  \<close>
\<close>

definition archive_media :: "aws_client \<Rightarrow> int \<Rightarrow> int \<Rightarrow> tg_message \<Rightarrow> aws_client \<times> (error + TelegramMedia option)" where
  "archive_media A cid message_id message =
     (case m_media message of
        None \<Rightarrow> (A, Inr None)
      | Some md \<Rightarrow>
          (case media_kind md (m_file message) of
             Inl e \<Rightarrow> (A, Inl e)
           | Inr (mt, file_name0) \<Rightarrow>
               (case m_download_media message of
                  Inl e \<Rightarrow> (A, Inl e)
                | Inr bytes \<Rightarrow>
                    (let extension = (case m_file message of None \<Rightarrow> Some '''' | Some fl \<Rightarrow> f_ext fl);
                         file_name =
                           (if file_name0 = Some ''''
                            then Some (str_int cid @ ''_'' @ str_int message_id @ ''_''
                                       @ str_int (m_date message) @ fstr_opt extension)
                            else file_name0)
                     in case upload_to_s3 A (Some bytes) (str_int cid) file_name of
                          (A', Inl e) \<Rightarrow> (A', Inl e)
                        | (A', Inr k) \<Rightarrow> (A', Inr (Some \<lparr>media_type = mt, media_key = k\<rparr>))))))"

text \<open>
  The body of the \<^verbatim>\<open>try\<close> block: the existence check and the early return when the
  message is already archived and \<^verbatim>\<open>skip_existing\<close> is set, the record, the media, and
  the write to the table. It yields the client as the body left it, and either the
  exception that ended it or how it returned.
\<close>

datatype upload_outcome = AlreadyExists | Stored

definition cloud_upload_body :: "helpers \<Rightarrow> env \<Rightarrow> aws_client \<Rightarrow> tg_message \<Rightarrow> bool \<Rightarrow> aws_client \<times> (error + upload_outcome)" where
  "cloud_upload_body H E A message skip_existing =
     (let cid = get_share_id H (m_chat_id message);
          message_id = m_id message
      in case check_message_exist E cid message_id of
           Inl e \<Rightarrow> (A, Inl e)
         | Inr ex \<Rightarrow>
             if ex \<and> skip_existing then (A, Inr AlreadyExists)
             else
               (case archived_user (m_sender message) of
                  Inl e \<Rightarrow> (A, Inl e)
                | Inr telegram_user \<Rightarrow>
                    (case forward_origin (m_fwd_from message) of
                       Inl e \<Rightarrow> (A, Inl e)
                     | Inr (is_fwd, fwd) \<Rightarrow>
                         (case archive_media A cid message_id message of
                            (A1, Inl e) \<Rightarrow> (A1, Inl e)
                          | (A1, Inr md) \<Rightarrow>
                              (let telegram_message =
                                     \<lparr>tm_chat_id = cid, tm_message_id = message_id,
                                      tm_timestamp = m_date message, tm_user = telegram_user,
                                      tm_text = m_text message, tm_media = md,
                                      tm_reply_to = m_reply_to message,
                                      tm_is_forward = Some is_fwd, tm_fwd_from = fwd\<rparr>
                               in case put_item_to_dynamo A1 None
                                         (Some (TelegramMessage_dict telegram_message)) of
                                    (A2, Some e) \<Rightarrow> (A2, Inl e)
                                  | (A2, None) \<Rightarrow> (A2, Inr Stored))))))"

text \<open>
  \<^verbatim>\<open>
  async def cloud_upload_message(self, event, skip_existing=True):
      if not self._cloud_client:
          self._logger.warning('Cloud storage is not configured, skipping upload')
          return
      try:
          ...
      except Exception as e:
          self._logger.error(f'Failed to upload message {event.id} to cloud: {e}')
  \<close>
  The second component of the result is the exception that leaves the function, if any.
\<close>

definition cloud_upload_message :: "helpers \<Rightarrow> env \<Rightarrow> backend \<Rightarrow> tg_message \<Rightarrow> bool \<Rightarrow> backend \<times> error option" where
  "cloud_upload_message H E s event skip_existing =
     (case cloud_client s of
        None \<Rightarrow> (s\<lparr>logged := logged s @ [Warning_cloud_not_configured]\<rparr>, None)
      | Some A \<Rightarrow>
          (case cloud_upload_body H E A event skip_existing of
             (A', Inl e) \<Rightarrow>
               (s\<lparr>cloud_client := Some A',
                  logged := logged s @ [Error_upload_failed (m_id event) e]\<rparr>, None)
           | (A', Inr r) \<Rightarrow> (s\<lparr>cloud_client := Some A'\<rparr>, None)))"

subsection \<open>Live events\<close>

text \<open>
  \<^verbatim>\<open>
  async def client_message_handler(event):
      if self._should_monitor(event.chat_id):
          if msg_text := self._extract_text(event):
              share_id = get_share_id(event.chat_id)
              sender = await self._get_sender_name(event.message)
              url = f'https://t.me/c/{share_id}/{event.id}'
              msg = IndexMsg(content=msg_text, url=url, chat_id=share_id,
                             post_time=datetime.fromtimestamp(event.date.timestamp()), sender=sender)
              self.newest_msg[share_id] = msg
              self._indexer.add_document(msg)
          if self._cfg.cloudstorage:
              await self.cloud_upload_message(event)
  \<close>
  There is no handler around the indexing block: an exception of the sender lookup leaves
  the function before the record is built, and an exception of \<^verbatim>\<open>add_document\<close> leaves
  it after the newest-message table was updated and the call was issued; in both cases
  the archival call is not reached.
\<close>

definition client_message_handler :: "helpers \<Rightarrow> env \<Rightarrow> backend \<Rightarrow> tg_message \<Rightarrow> backend \<times> error option" where
  "client_message_handler H E s event =
     (if should_monitor H s (m_chat_id event) then
        (let msg_text = PStr (extract_text H event)
         in case (if truthy msg_text then
                    (let share_id = get_share_id H (m_chat_id event)
                     in case get_sender_name H event of
                          Inl e \<Rightarrow> (s, Some e)
                        | Inr sndr \<Rightarrow>
                            (let u = msg_url share_id (m_id event);
                                 msg = \<lparr>content = msg_text, url = u, chat_id = share_id,
                                        post_time = m_date event, sender = sndr\<rparr>
                             in (s\<lparr>newest_msg := (newest_msg s)(share_id \<mapsto> msg),
                                   ix_calls := ix_calls s @ [IxAdd msg]\<rparr>,
                                 add_document E msg)))
                  else (s, None)) of
              (s1, Some e) \<Rightarrow> (s1, Some e)
            | (s1, None) \<Rightarrow>
                if cloudstorage s1 then cloud_upload_message H E s1 event True else (s1, None))
      else (s, None))"


subsection \<open>Backfill\<close>

text \<open>
  \<^verbatim>\<open>
  async for tg_message in self.session.iter_messages(chat_id, min_id=min_id, max_id=max_id):
      if cloud:
          await self.cloud_upload_message(tg_message, skip_existing)
      if msg_text := self._extract_text(tg_message) and not skip_indexing:
          url = f'https://t.me/c/{share_id}/{tg_message.id}'
          sender = await self._get_sender_name(tg_message)
          msg = IndexMsg(content=msg_text, url=url, chat_id=chat_id,
                         post_time=datetime.fromtimestamp(tg_message.date.timestamp()), sender=sender)
          msg_list.append(msg)
      if call_back:
          await call_back(tg_message.id)
  \<close>
  An assignment expression takes everything to the right of \<^verbatim>\<open>:=\<close>, so \<^verbatim>\<open>msg_text\<close> is
  the value of \<^verbatim>\<open>self._extract_text(tg_message) and not skip_indexing\<close>.

  The loop body runs for the messages the iteration yields, in order, on the state and the
  list built so far; it stops at the first exception that leaves the body: one of the
  sender lookup, made only when a record is built, or of the progress call-back, which is
  given by what each call does: return, or raise.
\<close>

fun download_loop ::
  "helpers \<Rightarrow> env \<Rightarrow> int \<Rightarrow> int \<Rightarrow> bool \<Rightarrow> (int \<Rightarrow> error option) option \<Rightarrow> bool \<Rightarrow> bool \<Rightarrow>
   tg_message list \<Rightarrow> backend \<Rightarrow> index_msg list \<Rightarrow> backend \<times> index_msg list \<times> error option" where
  "download_loop H E raw_chat_id share_id cloud call_back skip_indexing skip_existing [] s msg_list =
     (s, msg_list, None)"
| "download_loop H E raw_chat_id share_id cloud call_back skip_indexing skip_existing (tg_message # rest) s msg_list =
     (case (if cloud then cloud_upload_message H E s tg_message skip_existing else (s, None)) of
        (s1, Some e) \<Rightarrow> (s1, msg_list, Some e)
      | (s1, None) \<Rightarrow>
          (let msg_text = py_and (PStr (extract_text H tg_message)) (PBool (\<not> skip_indexing))
           in case (if truthy msg_text then
                      (let u = msg_url share_id (m_id tg_message)
                       in case get_sender_name H tg_message of
                            Inl e \<Rightarrow> Inl e
                          | Inr sndr \<Rightarrow>
                              (let msg = \<lparr>content = msg_text, url = u, chat_id = raw_chat_id,
                                          post_time = m_date tg_message, sender = sndr\<rparr>
                               in Inr (msg_list @ [msg])))
                    else Inr msg_list) of
                Inl e \<Rightarrow> (s1, msg_list, Some e)
              | Inr msg_list1 \<Rightarrow>
                  (case (case call_back of None \<Rightarrow> None | Some cb \<Rightarrow> cb (m_id tg_message)) of
                     Some e \<Rightarrow> (s1, msg_list1, Some e)
                   | None \<Rightarrow>
                       download_loop H E raw_chat_id share_id cloud call_back skip_indexing
                         skip_existing rest s1 msg_list1)))"

text \<open>
  \<^verbatim>\<open>
  async def download_history(self, chat_id, min_id, max_id, cloud=False, call_back=None,
                             skip_indexing=False, skip_existing=True):
      share_id = get_share_id(chat_id)
      self.monitored_chats.add(share_id)
      msg_list = []
      async for tg_message in ...: ...
      writer = self._indexer.ix.writer()
      for msg in msg_list:
          self._indexer.add_document(msg, writer)
          self.newest_msg[share_id] = msg
      writer.commit()
  \<close>
  There is no handler around the loop: an exception from the body or from the iteration
  leaves the function before the writer is opened.
\<close>

definition download_history ::
  "helpers \<Rightarrow> env \<Rightarrow> backend \<Rightarrow> int \<Rightarrow> int \<Rightarrow> int \<Rightarrow> bool \<Rightarrow> (int \<Rightarrow> error option) option \<Rightarrow> bool \<Rightarrow> bool \<Rightarrow>
   backend \<times> error option" where
  "download_history H E s raw_chat_id min_id max_id cloud call_back skip_indexing skip_existing =
     (let share_id = get_share_id H raw_chat_id;
          s0 = s\<lparr>monitored_chats := insert share_id (monitored_chats s)\<rparr>;
          (yielded, failure) = iter_messages E raw_chat_id min_id max_id
      in case download_loop H E raw_chat_id share_id cloud call_back skip_indexing skip_existing
                yielded s0 [] of
           (s1, msg_list, Some e) \<Rightarrow> (s1, Some e)
         | (s1, msg_list, None) \<Rightarrow>
             (case failure of
                Some e \<Rightarrow> (s1, Some e)
              | None \<Rightarrow>
                  (s1\<lparr>newest_msg := foldl (\<lambda>nm msg. nm(share_id \<mapsto> msg)) (newest_msg s1) msg_list,
                      ix_calls := ix_calls s1 @ [IxBatch msg_list]\<rparr>, None)))"

subsection \<open>Clearing\<close>

text \<open>
  \<^verbatim>\<open>
  def clear(self, chat_ids=None):
      if chat_ids is not None:
          for chat_id in chat_ids:
              with self._indexer.ix.writer() as w:
                  w.delete_by_term('chat_id', str(chat_id))
          for chat_id in chat_ids:
              self.monitored_chats.remove(chat_id)
      else:
          self._indexer.clear()
          self.monitored_chats.clear()
  \<close>
  \<^verbatim>\<open>set.remove\<close> raises KeyError when the element is not in the set.
\<close>

fun remove_each :: "int set \<Rightarrow> int list \<Rightarrow> int set \<times> error option" where
  "remove_each chats [] = (chats, None)"
| "remove_each chats (c # cs) =
     (if c \<in> chats then remove_each (chats - {c}) cs else (chats, Some (KeyError c)))"

definition clear :: "backend \<Rightarrow> int list option \<Rightarrow> backend \<times> error option" where
  "clear s chat_ids =
     (case chat_ids of
        Some cs \<Rightarrow>
          (let s1 = s\<lparr>ix_calls := ix_calls s @ map (\<lambda>c. IxDeleteByTerm ''chat_id'' (str_int c)) cs\<rparr>;
               (chats, err) = remove_each (monitored_chats s1) cs
           in (s1\<lparr>monitored_chats := chats\<rparr>, err))
      | None \<Rightarrow> (s\<lparr>ix_calls := ix_calls s @ [IxClear], monitored_chats := {}\<rparr>, None))"

subsection \<open>Sample inputs\<close>

text \<open>
  An instance of the helpers, for evaluating the model at concrete inputs: the canonical
  id drops the platform's marking of a raw id (the prefix -100 of a channel, the minus
  sign of a group), the content is left as it is, and a user is shown by the first name.
\<close>

definition sample_helpers :: helpers where
  "sample_helpers =
     \<lparr>get_share_id = (\<lambda>c. if 0 \<le> c then c
                           else if 1000000000000 < - c then - c - 1000000000000 else - c),
      escape_content = (\<lambda>t. t),
      format_entity_name = (\<lambda>u. fstr_opt (u_first_name u))\<rparr>"

definition sample_backend :: backend where
  "sample_backend =
     \<lparr>monitor_all = False, cloudstorage = False, monitored_chats = {1},
      excluded_chats = {}, newest_msg = Map.empty, ix_calls = [],
      cloud_client = None, logged = []\<rparr>"

text \<open>The text "hello", and a text of one ideographic space (U+3000).\<close>

definition hello :: pystr where
  "hello = [104, 101, 108, 108, 111]"

definition wide_blank :: pystr where
  "wide_blank = [12288]"

definition sample_message :: tg_message where
  "sample_message =
     \<lparr>m_id = 5, m_chat_id = - 1000000000007, m_raw_text = Some hello, m_text = Some ''hello'',
      m_date = 1700000000, m_sender = None, m_get_sender = Inr None, m_reply_to = None,
      m_fwd_from = None, m_media = None, m_file = None, m_download_media = Inl PlatformError\<rparr>"

definition sample_env :: env where
  "sample_env =
     \<lparr>iter_messages = (\<lambda>c lo hi. ([sample_message], None)),
      check_message_exist = (\<lambda>c m. Inl AttributeError),
      add_document = (\<lambda>msg. None)\<rparr>"

text \<open>The index is locked: the live handler's \<^verbatim>\<open>add_document\<close> raises.\<close>

definition locked_env :: env where
  "locked_env = sample_env\<lparr>add_document := (\<lambda>msg. Some LockError)\<rparr>"

definition sample_table :: dynamo_table where
  "sample_table = \<lparr>key_schema = DEFAULT_KEY_SCHEMA,
                    attribute_definitions = DEFAULT_ATTRIBUTE_DEFINITIONS, rows = []\<rparr>"

definition sample_aws :: aws_client where
  "sample_aws = \<lparr>s3_bucket_name = Some ''archive'', dynamo_table_name = DEFAULT_TABLE_NAME,
                  buckets = {''archive''}, objects = Map.empty,
                  tables = [DEFAULT_TABLE_NAME \<mapsto> sample_table]\<rparr>"

definition sample_item :: "int \<Rightarrow> item" where
  "sample_item message_id =
     TelegramMessage_dict
       \<lparr>tm_chat_id = 7, tm_message_id = message_id, tm_timestamp = 1700000000,
        tm_user = \<lparr>user_id = 0, username = Some '''', first_name = Some '''',
                   last_name = Some '''', is_bot = False\<rparr>,
        tm_text = Some ''hello'', tm_media = None, tm_reply_to = None,
        tm_is_forward = Some False, tm_fwd_from = None\<rparr>"

definition sample_cloud_backend :: backend where
  "sample_cloud_backend = sample_backend\<lparr>cloudstorage := True, cloud_client := Some sample_aws\<rparr>"

text \<open>An iteration that yields the sample message and then fails.\<close>

definition failing_env :: env where
  "failing_env = sample_env\<lparr>iter_messages := (\<lambda>c lo hi. ([sample_message], Some PlatformError))\<rparr>"

text \<open>The sample message in the monitored chat 1.\<close>

definition monitored_message :: tg_message where
  "monitored_message = sample_message\<lparr>m_chat_id := 1\<rparr>"

subsection \<open>The record of a live message\<close>

text \<open>
  The record that \<^verbatim>\<open>client_message_handler\<close> builds for an event once the sender's name
  is known, named for the statements below.
\<close>

definition live_index_msg :: "helpers \<Rightarrow> tg_message \<Rightarrow> string \<Rightarrow> index_msg" where
  "live_index_msg H event sndr =
     \<lparr>content = PStr (extract_text H event),
      url = msg_url (get_share_id H (m_chat_id event)) (m_id event),
      chat_id = get_share_id H (m_chat_id event),
      post_time = m_date event,
      sender = sndr\<rparr>"

section \<open>Theorems\<close>

lemma neg_floordiv_neg: "- ((- a) div b) = \<lceil>real_of_int a / real_of_int b\<rceil>"
proof -
  have "\<lceil>real_of_int a / real_of_int b\<rceil> = - \<lfloor>- (real_of_int a / real_of_int b)\<rfloor>"
    by (simp add: ceiling_def)
  also have "- (real_of_int a / real_of_int b) = real_of_int (- a) / real_of_int b"
    by simp
  also have "\<lfloor>real_of_int (- a) / real_of_int b\<rfloor> = (- a) div b"
    by (rule floor_divide_of_int_eq)
  finally show ?thesis by simp
qed

lemma FakeRedis_sets_last:
  "FakeRedis_get (FakeRedis_sets r kvs) key =
     (case map_of (rev kvs) key of None \<Rightarrow> FakeRedis_get r key | Some v \<Rightarrow> Some v)"
  by (induction kvs arbitrary: r)
     (auto simp: FakeRedis_get_def FakeRedis_set_def map_add_def split: option.splits)

lemmas eval_str = str_int_def str_nat.simps digit_char_def

subsection \<open>The correlation store\<close>

text \<open>
  C10. In the store used without redis, \<^verbatim>\<open>get(k)\<close> right after \<^verbatim>\<open>set(k, v)\<close> returns
  \<open>v\<close>; a later \<^verbatim>\<open>set\<close> for the same key overwrites; and after any run of \<^verbatim>\<open>set\<close>
  calls on a fresh store, \<^verbatim>\<open>get(k)\<close> returns the value of the last call for \<open>k\<close>, and
  \<open>None\<close> when no call was for \<open>k\<close> (\<open>map_of\<close> takes the first pair for a key, here of
  the calls in reverse order).
\<close>

theorem FakeRedis_get_after_set:
  "FakeRedis_get (FakeRedis_set r key val) key = Some val
   \<and> FakeRedis_get (FakeRedis_set (FakeRedis_set r key val) key val') key = Some val'
   \<and> FakeRedis_get (FakeRedis_sets FakeRedis_init kvs) key = map_of (rev kvs) key"
  by (simp add: FakeRedis_sets_last)
     (simp add: FakeRedis_get_def FakeRedis_set_def FakeRedis_init_def split: option.splits)

subsection \<open>The monitoring gate\<close>

text \<open>
  C4. For every raw chat id and every monitoring state, \<^verbatim>\<open>_should_monitor\<close> returns true
  exactly when: if \<open>monitor_all\<close> is set, the canonical id is not excluded; and if it is not
  set, the canonical id is monitored.
\<close>

theorem should_monitor_iff:
  "should_monitor H s raw_chat_id \<longleftrightarrow>
     (monitor_all s \<longrightarrow> get_share_id H raw_chat_id \<notin> excluded_chats s)
     \<and> (\<not> monitor_all s \<longrightarrow> get_share_id H raw_chat_id \<in> monitored_chats s)"
  by (simp add: should_monitor_def Let_def)

theorem should_monitor_iff_witness:
  "should_monitor sample_helpers sample_backend (- 1000000000001)
   \<and> \<not> should_monitor sample_helpers
         (sample_backend\<lparr>monitor_all := True, excluded_chats := {1}\<rparr>) (- 1000000000001)
   \<and> should_monitor sample_helpers
         (sample_backend\<lparr>monitor_all := True, excluded_chats := {1}\<rparr>) 2"
  using should_monitor_iff [of sample_helpers sample_backend "- 1000000000001"]
        should_monitor_iff [of sample_helpers
          "sample_backend\<lparr>monitor_all := True, excluded_chats := {1}\<rparr>" "- 1000000000001"]
        should_monitor_iff [of sample_helpers
          "sample_backend\<lparr>monitor_all := True, excluded_chats := {1}\<rparr>" 2]
  by (simp add: sample_helpers_def sample_backend_def)

subsection \<open>The page strip\<close>

text \<open>
  C7. Whenever a page strip is rendered (the page length is not zero; with zero the
  division raises), it is one row of three buttons. The first is the blank button, with
  empty data, exactly when the current page is 1; otherwise it carries the label of the
  previous page and the request \<^verbatim>\<open>search_page=n-1\<close>. The third is the blank button,
  with empty data, exactly when the result says it is the last page; otherwise it carries
  the label of the next page and the request \<^verbatim>\<open>search_page=n+1\<close>. The middle one shows
  the current page and the number of pages, which is the ceiling of the number of results
  divided by the page length.
\<close>

theorem render_respond_buttons_pages:
  assumes "page_len \<noteq> 0"
  shows "\<exists>former mid nxt.
           render_respond_buttons page_len result cur_page_num = Inr [[former, mid, nxt]]
           \<and> (former = blank_button \<longleftrightarrow> cur_page_num = 1)
           \<and> (b_data former = [] \<longleftrightarrow> cur_page_num = 1)
           \<and> (cur_page_num \<noteq> 1 \<longrightarrow>
                 former = \<lparr>b_text = former_label,
                           b_data = ''search_page='' @ str_int (cur_page_num - 1)\<rparr>)
           \<and> (nxt = blank_button \<longleftrightarrow> is_last_page result)
           \<and> (b_data nxt = [] \<longleftrightarrow> is_last_page result)
           \<and> (\<not> is_last_page result \<longrightarrow>
                 nxt = \<lparr>b_text = next_label,
                        b_data = ''search_page='' @ str_int (cur_page_num + 1)\<rparr>)
           \<and> mid = \<lparr>b_text = str_int cur_page_num @ '' / ''
                       @ str_int \<lceil>real_of_int (total_results result) / real_of_int page_len\<rceil>,
                     b_data = ''''\<rparr>"
  using assms
  by (simp add: render_respond_buttons_def py_floordiv_def blank_button_def neg_floordiv_neg Let_def)

text \<open>Page 2 of 25 results, ten to a page.\<close>

theorem render_respond_buttons_pages_witness:
  "(10::int) \<noteq> 0 \<and>
   (\<exists>former mid nxt.
      render_respond_buttons 10 \<lparr>total_results = 25, is_last_page = False\<rparr> 2
        = Inr [[former, mid, nxt]]
      \<and> former = \<lparr>b_text = former_label, b_data = ''search_page=1''\<rparr>
      \<and> nxt = \<lparr>b_text = next_label, b_data = ''search_page=3''\<rparr>
      \<and> mid = \<lparr>b_text = ''2 / 3'', b_data = ''''\<rparr>)"
  using render_respond_buttons_pages [of 10 "\<lparr>total_results = 25, is_last_page = False\<rparr>" 2]
  by (simp add: eval_str)

subsection \<open>The conditional write\<close>

lemma primary_key_timestamp:
  assumes "key_schema t = DEFAULT_KEY_SCHEMA" and "primary_key t r = Some k"
  shows "map_of r ''timestamp'' \<noteq> None"
  using assms
  by (auto simp: primary_key_def DEFAULT_KEY_SCHEMA_def key_attr_def split: option.splits if_splits)

text \<open>A stored item with the new item's key has the attribute \<open>timestamp\<close>: the guard fails.\<close>

lemma put_item_stored:
  assumes "key_schema t = DEFAULT_KEY_SCHEMA"
    and "r \<in> set (rows t)" and "primary_key t r = Some k" and "primary_key t it = Some k"
  shows "put_item t it (AND (attribute_not_exists ''chat_id'') (attribute_not_exists ''#ts''))
           [(''#ts'', ''timestamp'')] = Inl ConditionalCheckFailedException"
proof -
  from assms(2,3) obtain r' where f: "find (\<lambda>r. primary_key t r = Some k) (rows t) = Some r'"
    by (cases "find (\<lambda>r. primary_key t r = Some k) (rows t)") (auto simp: find_None_iff)
  then have "primary_key t r' = Some k"
    by (auto simp: find_Some_iff)
  with assms(1) have "map_of r' ''timestamp'' \<noteq> None"
    by (rule primary_key_timestamp)
  with f assms(4) show ?thesis
    by (simp add: put_item_def)
qed

lemma put_item_fresh:
  assumes "\<forall>r\<in>set (rows t). primary_key t r \<noteq> Some k" and "primary_key t it = Some k"
  shows "put_item t it (AND (attribute_not_exists ''chat_id'') (attribute_not_exists ''#ts''))
           [(''#ts'', ''timestamp'')] = Inr (t\<lparr>rows := rows t @ [it]\<rparr>)"
proof -
  from assms(1) have f: "find (\<lambda>r. primary_key t r = Some k) (rows t) = None"
    by (simp add: find_None_iff)
  from assms(1) have "filter (\<lambda>r. primary_key t r \<noteq> Some k) (rows t) = rows t"
    by (simp add: filter_id_conv)
  with f assms(2) show ?thesis
    by (simp add: put_item_def)
qed

lemma key_attr_rows_update [simp]: "key_attr (t\<lparr>rows := rs\<rparr>) = key_attr t"
  by (intro ext) (simp add: key_attr_def split: option.splits)

lemma primary_key_rows_update [simp]: "primary_key (t\<lparr>rows := rs\<rparr>) = primary_key t"
  by (rule ext) (simp add: primary_key_def)

text \<open>
  C3. On a table with the declared key schema (partition key \<open>chatId\<close>, sort key
  \<open>timestamp\<close>), \<^verbatim>\<open>put_item_to_dynamo\<close> of an item whose primary key a stored item
  already has raises (a RuntimeError that wraps the store's failed condition check) and
  leaves the client's storage as it was. When no stored item has the key, the call stores
  the item, exactly one row then has the key, and a second call with an item of the same
  key raises and changes nothing.
\<close>

theorem put_item_to_dynamo_duplicate:
  assumes "tables A (dynamo_table_name A) = Some t"
    and "key_schema t = DEFAULT_KEY_SCHEMA"
    and "primary_key t it = Some k" and "primary_key t it' = Some k"
  shows "((\<exists>r\<in>set (rows t). primary_key t r = Some k) \<longrightarrow>
            put_item_to_dynamo A None (Some it)
              = (A, Some (RuntimeError ConditionalCheckFailedException)))
       \<and> ((\<forall>r\<in>set (rows t). primary_key t r \<noteq> Some k) \<longrightarrow>
            (\<exists>A1 t1. put_item_to_dynamo A None (Some it) = (A1, None)
               \<and> tables A1 (dynamo_table_name A1) = Some t1
               \<and> filter (\<lambda>r. primary_key t1 r = Some k) (rows t1) = [it]
               \<and> put_item_to_dynamo A1 None (Some it')
                   = (A1, Some (RuntimeError ConditionalCheckFailedException))))"
proof (intro conjI impI)
  assume "\<exists>r\<in>set (rows t). primary_key t r = Some k"
  then obtain r where "r \<in> set (rows t)" "primary_key t r = Some k" by blast
  with assms(2,3)
  have "put_item t it (AND (attribute_not_exists ''chat_id'') (attribute_not_exists ''#ts''))
          [(''#ts'', ''timestamp'')] = Inl ConditionalCheckFailedException"
    by (intro put_item_stored)
  with assms(1)
  show "put_item_to_dynamo A None (Some it)
          = (A, Some (RuntimeError ConditionalCheckFailedException))"
    by (simp add: put_item_to_dynamo_def)
next
  assume fresh: "\<forall>r\<in>set (rows t). primary_key t r \<noteq> Some k"
  define t1 where "t1 = t\<lparr>rows := rows t @ [it]\<rparr>"
  define A1 where "A1 = A\<lparr>tables := (tables A)(dynamo_table_name A \<mapsto> t1)\<rparr>"
  from fresh assms(3)
  have p: "put_item t it (AND (attribute_not_exists ''chat_id'') (attribute_not_exists ''#ts''))
             [(''#ts'', ''timestamp'')] = Inr t1"
    unfolding t1_def by (rule put_item_fresh)
  with assms(1) have first: "put_item_to_dynamo A None (Some it) = (A1, None)"
    by (simp add: put_item_to_dynamo_def A1_def)
  have tab: "tables A1 (dynamo_table_name A1) = Some t1"
    by (simp add: A1_def)
  from fresh assms(3) have one: "filter (\<lambda>r. primary_key t1 r = Some k) (rows t1) = [it]"
    by (simp add: t1_def filter_empty_conv)
  have "put_item t1 it' (AND (attribute_not_exists ''chat_id'') (attribute_not_exists ''#ts''))
          [(''#ts'', ''timestamp'')] = Inl ConditionalCheckFailedException"
  proof (rule put_item_stored)
    show "key_schema t1 = DEFAULT_KEY_SCHEMA" using assms(2) by (simp add: t1_def)
    show "it \<in> set (rows t1)" by (simp add: t1_def)
    show "primary_key t1 it = Some k" using assms(3) by (simp add: t1_def)
    show "primary_key t1 it' = Some k" using assms(4) by (simp add: t1_def)
  qed
  with tab have second: "put_item_to_dynamo A1 None (Some it')
                           = (A1, Some (RuntimeError ConditionalCheckFailedException))"
    by (simp add: put_item_to_dynamo_def)
  from first tab one second
  show "\<exists>A1 t1. put_item_to_dynamo A None (Some it) = (A1, None)
          \<and> tables A1 (dynamo_table_name A1) = Some t1
          \<and> filter (\<lambda>r. primary_key t1 r = Some k) (rows t1) = [it]
          \<and> put_item_to_dynamo A1 None (Some it')
              = (A1, Some (RuntimeError ConditionalCheckFailedException))"
    by blast
qed

lemma sample_item_key: "primary_key sample_table (sample_item i) = Some [N 7, N 1700000000]"
  by (simp add: primary_key_def key_attr_def sample_table_def sample_item_def
        TelegramMessage_dict_def DEFAULT_KEY_SCHEMA_def DEFAULT_ATTRIBUTE_DEFINITIONS_def)

text \<open>Two messages of chat 7 with one time stamp, written to an empty table.\<close>

theorem put_item_to_dynamo_duplicate_witness:
  "tables sample_aws (dynamo_table_name sample_aws) = Some sample_table
   \<and> key_schema sample_table = DEFAULT_KEY_SCHEMA
   \<and> primary_key sample_table (sample_item 5) = Some [N 7, N 1700000000]
   \<and> primary_key sample_table (sample_item 6) = Some [N 7, N 1700000000]
   \<and> rows sample_table = []
   \<and> (\<exists>A1 t1. put_item_to_dynamo sample_aws None (Some (sample_item 5)) = (A1, None)
         \<and> tables A1 (dynamo_table_name A1) = Some t1
         \<and> filter (\<lambda>r. primary_key t1 r = Some [N 7, N 1700000000]) (rows t1) = [sample_item 5]
         \<and> put_item_to_dynamo A1 None (Some (sample_item 6))
             = (A1, Some (RuntimeError ConditionalCheckFailedException)))"
proof -
  have a: "tables sample_aws (dynamo_table_name sample_aws) = Some sample_table"
    by (simp add: sample_aws_def)
  have b: "key_schema sample_table = DEFAULT_KEY_SCHEMA"
    by (simp add: sample_table_def)
  have c: "\<forall>r\<in>set (rows sample_table). primary_key sample_table r \<noteq> Some [N 7, N 1700000000]"
    by (simp add: sample_table_def)
  have d: "rows sample_table = []"
    by (simp add: sample_table_def)
  from put_item_to_dynamo_duplicate [OF a b sample_item_key [of 5] sample_item_key [of 6]] a b c d
  show ?thesis
    by (simp add: sample_item_key)
qed

subsection \<open>Archival never raises\<close>

lemmas eval_sample = sample_helpers_def sample_message_def sample_backend_def
  extract_text_def strip_def is_space_def py_and_def msg_url_def get_sender_name_def
  hello_def wide_blank_def

lemma cloud_upload_message_returns:
  "snd (cloud_upload_message H E s event skip_existing) = None"
  by (simp add: cloud_upload_message_def split: option.splits prod.splits sum.splits)

lemma cloud_upload_message_keeps:
  "ix_calls (fst (cloud_upload_message H E s event skip_existing)) = ix_calls s"
  "newest_msg (fst (cloud_upload_message H E s event skip_existing)) = newest_msg s"
  "monitored_chats (fst (cloud_upload_message H E s event skip_existing)) = monitored_chats s"
  by (simp_all add: cloud_upload_message_def split: option.splits prod.splits sum.splits)

text \<open>The archival step of the backfill loop returns and leaves the index side alone.\<close>

lemma archival_step:
  "\<exists>s1. (if cloud then cloud_upload_message H E s m se else (s, None)) = (s1, None)
        \<and> ix_calls s1 = ix_calls s \<and> newest_msg s1 = newest_msg s"
proof -
  let ?r = "if cloud then cloud_upload_message H E s m se else (s, None)"
  have "snd ?r = None"
    by (simp add: cloud_upload_message_returns)
  moreover have "ix_calls (fst ?r) = ix_calls s \<and> newest_msg (fst ?r) = newest_msg s"
    by (simp add: cloud_upload_message_keeps)
  ultimately show ?thesis
    by (cases ?r) auto
qed

lemma download_loop_keeps:
  "ix_calls (fst (download_loop H E c sh cloud cb si se msgs s acc)) = ix_calls s
   \<and> newest_msg (fst (download_loop H E c sh cloud cb si se msgs s acc)) = newest_msg s"
proof (induction msgs arbitrary: s acc)
  case Nil
  show ?case by simp
next
  case (Cons m ms)
  obtain s1 where up: "(if cloud then cloud_upload_message H E s m se else (s, None)) = (s1, None)"
    and keep: "ix_calls s1 = ix_calls s \<and> newest_msg s1 = newest_msg s"
    using archival_step [of cloud H E s m se] by blast
  show ?case
    using up keep Cons.IH by (auto simp: Let_def split: option.splits sum.splits)
qed


lemma should_monitor_cloudstorage [simp]:
  "should_monitor H (s\<lparr>cloudstorage := b\<rparr>) c = should_monitor H s c"
  by (simp add: should_monitor_def)





subsection \<open>Live new messages\<close>

text \<open>
  C5 as stated fails. A message with the text "hello" arrives in a monitored chat, with
  archival enabled. When the index is locked, \<^verbatim>\<open>add_document\<close> raises: the exception
  leaves the handler and the archival call is not made (the log is empty, where the call
  would have logged its failure). When the sender lookup raises, the handler ends with
  that exception and nothing changed: no index add is issued, though the chat passes the
  gate and the text is not empty.
\<close>

theorem client_message_handler_counterexample:
  "should_monitor sample_helpers sample_cloud_backend (m_chat_id monitored_message)
   \<and> cloudstorage sample_cloud_backend
   \<and> extract_text sample_helpers monitored_message = hello
   \<and> snd (client_message_handler sample_helpers locked_env sample_cloud_backend monitored_message)
       = Some LockError
   \<and> logged (fst (client_message_handler sample_helpers locked_env sample_cloud_backend
                    monitored_message)) = []
   \<and> logged (fst (cloud_upload_message sample_helpers locked_env
                    (fst (client_message_handler sample_helpers locked_env sample_cloud_backend
                            monitored_message))
                    monitored_message True))
       = [Error_upload_failed 5 AttributeError]
   \<and> client_message_handler sample_helpers sample_env sample_cloud_backend
        (monitored_message\<lparr>m_get_sender := Inl PlatformError\<rparr>)
       = (sample_cloud_backend, Some PlatformError)
   \<and> ix_calls sample_cloud_backend = []"
  by (simp add: client_message_handler_def should_monitor_def monitored_message_def
        sample_cloud_backend_def locked_env_def sample_env_def eval_sample
        cloud_upload_message_def cloud_upload_body_def Let_def)

text \<open>
  C5, amended. For every live new-message event, the handler issues an index add (of the
  record built from the extracted text, the canonical chat id, the message id and the
  sender's name) exactly when the chat passes the monitoring gate, the extracted text is
  not empty and the sender lookup returns; it issues no other index call. When archival is
  enabled and the chat passes the gate, the handler ends by calling
  \<^verbatim>\<open>cloud_upload_message\<close> for the event, whether the text is empty or not, provided
  that, for a text that is not empty, the sender lookup and the index add return. If one
  of the two raises, the exception leaves the handler and the archival call is not made:
  the archive client and the log are as before.
\<close>

theorem client_message_handler_gating:
  "ix_calls (fst (client_message_handler H E s event)) =
     ix_calls s @
       (if should_monitor H s (m_chat_id event) \<and> extract_text H event \<noteq> []
        then (case get_sender_name H event of
                Inl e \<Rightarrow> []
              | Inr sndr \<Rightarrow> [IxAdd (live_index_msg H event sndr)])
        else [])
   \<and> (should_monitor H s (m_chat_id event) \<and> cloudstorage s
        \<and> (extract_text H event = []
             \<or> (\<exists>sndr. get_sender_name H event = Inr sndr
                    \<and> add_document E (live_index_msg H event sndr) = None)) \<longrightarrow>
        (\<exists>s1. client_message_handler H E s event = cloud_upload_message H E s1 event True
              \<and> cloud_client s1 = cloud_client s \<and> logged s1 = logged s))
   \<and> (should_monitor H s (m_chat_id event) \<and> extract_text H event \<noteq> []
        \<and> (get_sender_name H event = Inl e
             \<or> (\<exists>sndr. get_sender_name H event = Inr sndr
                    \<and> add_document E (live_index_msg H event sndr) = Some e)) \<longrightarrow>
        snd (client_message_handler H E s event) = Some e
        \<and> cloud_client (fst (client_message_handler H E s event)) = cloud_client s
        \<and> logged (fst (client_message_handler H E s event)) = logged s)"
  by (auto simp: client_message_handler_def live_index_msg_def Let_def cloud_upload_message_keeps
        split: sum.splits option.splits)

text \<open>
  A message of one ideographic space in a monitored chat, archival enabled: no index add,
  archival called. The message "hello" with the index locked: the add is issued, the
  exception leaves the handler, the log is untouched.
\<close>

theorem client_message_handler_gating_witness:
  "should_monitor sample_helpers sample_cloud_backend
     (m_chat_id (monitored_message\<lparr>m_raw_text := Some wide_blank\<rparr>))
   \<and> cloudstorage sample_cloud_backend
   \<and> extract_text sample_helpers (monitored_message\<lparr>m_raw_text := Some wide_blank\<rparr>) = []
   \<and> ix_calls (fst (client_message_handler sample_helpers sample_env sample_cloud_backend
                       (monitored_message\<lparr>m_raw_text := Some wide_blank\<rparr>))) = []
   \<and> (\<exists>s1. client_message_handler sample_helpers sample_env sample_cloud_backend
                (monitored_message\<lparr>m_raw_text := Some wide_blank\<rparr>)
              = cloud_upload_message sample_helpers sample_env s1
                  (monitored_message\<lparr>m_raw_text := Some wide_blank\<rparr>) True
            \<and> cloud_client s1 = Some sample_aws \<and> logged s1 = [])
   \<and> extract_text sample_helpers monitored_message = hello
   \<and> get_sender_name sample_helpers monitored_message = Inr ''''
   \<and> add_document locked_env (live_index_msg sample_helpers monitored_message '''') = Some LockError
   \<and> ix_calls (fst (client_message_handler sample_helpers locked_env sample_cloud_backend
                       monitored_message))
       = [IxAdd \<lparr>content = PStr hello, url = ''https://t.me/c/1/5'', chat_id = 1,
                  post_time = 1700000000, sender = ''''\<rparr>]
   \<and> snd (client_message_handler sample_helpers locked_env sample_cloud_backend monitored_message)
       = Some LockError
   \<and> logged (fst (client_message_handler sample_helpers locked_env sample_cloud_backend
                    monitored_message)) = []"
proof -
  let ?ev = "monitored_message\<lparr>m_raw_text := Some wide_blank\<rparr>"
  have a: "should_monitor sample_helpers sample_cloud_backend (m_chat_id ?ev)"
    "should_monitor sample_helpers sample_cloud_backend (m_chat_id monitored_message)"
    by (simp_all add: should_monitor_def sample_helpers_def sample_cloud_backend_def
          sample_backend_def monitored_message_def sample_message_def)
  have b: "cloudstorage sample_cloud_backend"
    by (simp add: sample_cloud_backend_def)
  have c: "extract_text sample_helpers ?ev = []" "extract_text sample_helpers monitored_message = hello"
    by (simp_all add: monitored_message_def eval_sample)
  have d: "ix_calls sample_cloud_backend = []" "cloud_client sample_cloud_backend = Some sample_aws"
     "logged sample_cloud_backend = []"
    by (simp_all add: sample_cloud_backend_def sample_backend_def)
  have e: "get_sender_name sample_helpers monitored_message = Inr ''''"
    "add_document locked_env (live_index_msg sample_helpers monitored_message '''') = Some LockError"
    by (simp_all add: monitored_message_def locked_env_def eval_sample)
  have f: "live_index_msg sample_helpers monitored_message ''''
             = \<lparr>content = PStr hello, url = ''https://t.me/c/1/5'', chat_id = 1,
                post_time = 1700000000, sender = ''''\<rparr>"
    using c(2) by (simp add: live_index_msg_def)
       (simp add: monitored_message_def sample_helpers_def sample_message_def msg_url_def eval_str)
  have g: "hello \<noteq> []" by (simp add: hello_def)
  from client_message_handler_gating
         [of sample_helpers sample_env sample_cloud_backend ?ev LockError]
       client_message_handler_gating
         [of sample_helpers locked_env sample_cloud_backend monitored_message LockError]
       a b c d e f g
  show ?thesis by simp
qed

subsection \<open>Live deletes\<close>




subsection \<open>Backfill\<close>

text \<open>
  C1, evaluated. A backfill of the raw chat id -1000000000007 (canonical id 7) with
  \<^verbatim>\<open>skip_indexing\<close> false fetches one message, id 5, whose extracted text is "hello". One
  record is buffered and committed; its url is built from the canonical id and the message
  id, but its content is the boolean \<open>True\<close>, the value of
  \<^verbatim>\<open>self._extract_text(tg_message) and not skip_indexing\<close>, and its chat id is the raw
  id that was passed in.
\<close>

theorem download_history_record_fields:
  "extract_text sample_helpers sample_message = hello
   \<and> get_share_id sample_helpers (- 1000000000007) = 7
   \<and> ix_calls (fst (download_history sample_helpers sample_env sample_backend
                       (- 1000000000007) 1 100 False None False True))
       = [IxBatch [\<lparr>content = PBool True, url = ''https://t.me/c/7/5'',
                    chat_id = - 1000000000007, post_time = 1700000000, sender = ''''\<rparr>]]"
  by (simp add: download_history_def sample_env_def eval_sample eval_str)

text \<open>
  C2 as stated fails: the iteration yields one message with text and then raises; one
  record has been buffered by then; the exception leaves \<^verbatim>\<open>download_history\<close> and no
  index call has been issued.
\<close>

theorem download_history_failure_counterexample:
  "iter_messages failing_env (- 1000000000007) 1 100 = ([sample_message], Some PlatformError)
   \<and> fst (snd (download_loop sample_helpers failing_env (- 1000000000007) 7 False None False True
                  [sample_message] (sample_backend\<lparr>monitored_chats := {7, 1}\<rparr>) []))
       = [\<lparr>content = PBool True, url = ''https://t.me/c/7/5'',
           chat_id = - 1000000000007, post_time = 1700000000, sender = ''''\<rparr>]
   \<and> download_history sample_helpers failing_env sample_backend
        (- 1000000000007) 1 100 False None False True
       = (sample_backend\<lparr>monitored_chats := {7, 1}\<rparr>, Some PlatformError)
   \<and> ix_calls (sample_backend\<lparr>monitored_chats := {7, 1}\<rparr>) = []"
  by (simp add: download_history_def failing_env_def sample_env_def eval_sample eval_str)

text \<open>
  C2, amended. If the message iteration inside \<^verbatim>\<open>download_history\<close> fails partway
  through the range, an exception leaves \<^verbatim>\<open>download_history\<close> and no index call is
  issued: the records buffered so far are not committed, and the newest-message table is
  as it was before the run.
\<close>

theorem download_history_failure_discards:
  assumes "iter_messages E raw_chat_id min_id max_id = (yielded, Some e)"
  shows "snd (download_history H E s raw_chat_id min_id max_id cloud call_back skip_indexing skip_existing)
           \<noteq> None
       \<and> ix_calls (fst (download_history H E s raw_chat_id min_id max_id cloud call_back
                          skip_indexing skip_existing)) = ix_calls s
       \<and> newest_msg (fst (download_history H E s raw_chat_id min_id max_id cloud call_back
                             skip_indexing skip_existing)) = newest_msg s"
proof -
  let ?s0 = "s\<lparr>monitored_chats := insert (get_share_id H raw_chat_id) (monitored_chats s)\<rparr>"
  let ?r = "download_loop H E raw_chat_id (get_share_id H raw_chat_id) cloud call_back
              skip_indexing skip_existing yielded ?s0 []"
  obtain s1 msg_list err where r: "?r = (s1, msg_list, err)"
    by (cases ?r) auto
  have "ix_calls (fst ?r) = ix_calls ?s0 \<and> newest_msg (fst ?r) = newest_msg ?s0"
    by (rule download_loop_keeps)
  with r have keep: "ix_calls s1 = ix_calls s" "newest_msg s1 = newest_msg s"
    by simp_all
  from assms r keep show ?thesis
    by (cases err) (simp_all add: download_history_def Let_def)
qed

theorem download_history_failure_discards_witness:
  "iter_messages failing_env (- 1000000000007) 1 100 = ([sample_message], Some PlatformError)
   \<and> snd (download_history sample_helpers failing_env sample_backend
             (- 1000000000007) 1 100 False None False True) \<noteq> None
   \<and> ix_calls (fst (download_history sample_helpers failing_env sample_backend
                       (- 1000000000007) 1 100 False None False True)) = []"
proof -
  have a: "iter_messages failing_env (- 1000000000007) 1 100 = ([sample_message], Some PlatformError)"
    by (simp add: failing_env_def)
  have b: "ix_calls sample_backend = []"
    by (simp add: sample_backend_def)
  from download_history_failure_discards
         [OF a, of sample_helpers sample_backend False None False True] a b
  show ?thesis by simp
qed

subsection \<open>Clearing\<close>

text \<open>
  C9, evaluated. With chat 1 monitored, clearing chat 2 issues the index deletion for
  chat 2 and then raises KeyError: the chat is not in the monitored set.
\<close>

theorem clear_absent_chat_raises:
  "2 \<notin> monitored_chats sample_backend
   \<and> clear sample_backend (Some [2]) =
       (sample_backend\<lparr>ix_calls := [IxDeleteByTerm ''chat_id'' ''2'']\<rparr>, Some (KeyError 2))"
  by (simp add: clear_def sample_backend_def eval_str)

end
